theory Spec2Isabelle
  imports Main "HOL-Library.Sublist"
begin

section \<open>Strings and errors of the Go runtime\<close>

text \<open>
  A Go \<open>string\<close> is a sequence of bytes: here a \<open>char list\<close>. The functions of package
  \<open>strings\<close> that \<open>cmd/run/run.go\<close> calls are written out below.
\<close>

definition squote :: char where
  "squote = CHR 0x27"

definition dquote :: char where
  "dquote = CHR 0x22"

definition HasPrefix :: "string \<Rightarrow> string \<Rightarrow> bool" where
  "HasPrefix s pre = (take (length pre) s = pre)"

definition TrimPrefix :: "string \<Rightarrow> string \<Rightarrow> string" where
  "TrimPrefix s pre = (if HasPrefix s pre then drop (length pre) s else s)"

definition Trim :: "string \<Rightarrow> string \<Rightarrow> string" where
  "Trim s cutset =
     rev (dropWhile (\<lambda>c. c \<in> set cutset) (rev (dropWhile (\<lambda>c. c \<in> set cutset) s)))"

text \<open>
  \<open>strings.TrimSpace\<close> removes the white-space runes at both ends, where white space is
  what \<open>unicode.IsSpace\<close> accepts: the runes of \<open>whiteSpace\<close> below (Unicode's White_Space
  property). In the bytes of a Go string a rune stands in its UTF-8 encoding (\<open>utf8\<close>, for
  the runes below U+10000). Go decodes a rune at the front, or at the back, of the string:
  it finds a white-space rune there exactly when the string starts, or ends, with the
  encoding of one, since a malformed byte decodes to U+FFFD, which is no white space. So
  the encodings are stripped from the front as long as there is one, and then from the
  back.
\<close>

definition whiteSpace :: "int list" where
  "whiteSpace =
     [0x09, 0x0A, 0x0B, 0x0C, 0x0D, 0x20, 0x85, 0xA0, 0x1680,
      0x2000, 0x2001, 0x2002, 0x2003, 0x2004, 0x2005, 0x2006, 0x2007, 0x2008, 0x2009, 0x200A,
      0x2028, 0x2029, 0x202F, 0x205F, 0x3000]"

definition utf8 :: "int \<Rightarrow> string" where
  "utf8 r =
     (if r < 0x80 then [char_of r]
      else if r < 0x800 then [char_of (0xC0 + r div 64), char_of (0x80 + r mod 64)]
      else [char_of (0xE0 + r div 4096), char_of (0x80 + r div 64 mod 64),
            char_of (0x80 + r mod 64)])"

function stripPrefixes :: "string list \<Rightarrow> string \<Rightarrow> string" where
  "stripPrefixes encs s =
     (case find (\<lambda>e. e \<noteq> [] \<and> HasPrefix s e) encs of
        None \<Rightarrow> s
      | Some e \<Rightarrow> stripPrefixes encs (drop (length e) s))"
  by pat_completeness auto
termination
proof (relation "measure (\<lambda>(encs, s). length s)")
  show "wf (measure (\<lambda>(encs, s). length s))" by simp
next
  fix encs :: "string list" and s e :: string
  assume "find (\<lambda>e. e \<noteq> [] \<and> HasPrefix s e) encs = Some e"
  then have "e \<noteq> [] \<and> HasPrefix s e"
    by (auto simp: find_Some_iff)
  then have "0 < length e" and "length e \<le> length s"
    by (auto simp: HasPrefix_def dest: arg_cong [where f = length])
  then have "length s - length e < length s"
    by linarith
  then show "((encs, drop (length e) s), (encs, s)) \<in> measure (\<lambda>(encs, s). length s)"
    by simp
qed

declare stripPrefixes.simps [simp del]

definition TrimSpace :: "string \<Rightarrow> string" where
  "TrimSpace s =
     (let encs = map utf8 whiteSpace
      in rev (stripPrefixes (map rev encs) (rev (stripPrefixes encs s))))"

text \<open>\<open>strings.Split(s, sep)\<close> for a separator of one byte (the code splits at \<open>" "\<close> only).\<close>

fun Split :: "string \<Rightarrow> char \<Rightarrow> string list" where
  "Split [] sep = [[]]"
| "Split (c # cs) sep =
     (if c = sep then [] # Split cs sep
      else (case Split cs sep of
              [] \<Rightarrow> [[c]]
            | w # ws \<Rightarrow> (c # w) # ws))"

fun Join :: "string list \<Rightarrow> string \<Rightarrow> string" where
  "Join [] sep = []"
| "Join [x] sep = x"
| "Join (x # y # ys) sep = x @ sep @ Join (y # ys) sep"

text \<open>
  Go's \<open>error\<close> values that occur in the program: \<open>errors.New\<close> gives an \<open>errorString\<close>,
  package \<open>strconv\<close> gives a \<open>NumError\<close> with the fields \<open>Func\<close>, \<open>Num\<close> and \<open>Err\<close>,
  a reader at its end gives \<open>io.EOF\<close>. \<open>Panic\<close> stands for a run-time panic, which ends
  the program as a returned error ends the session.
\<close>

datatype error =
    errorString string
  | NumError string string error
  | EOF
  | Panic string

definition ErrSyntax :: error where
  "ErrSyntax = errorString ''invalid syntax''"

definition ErrRange :: error where
  "ErrRange = errorString ''value out of range''"

section \<open>Package strconv\<close>

text \<open>
  \<open>strconv.Atoi\<close> for a 64-bit \<open>int\<close>: an optional sign, then decimal digits read from the
  left. A byte that is no digit is a syntax error at once; a value that leaves the
  unsigned 64-bit range is a range error at once; at the end the signed range is checked.
\<close>

definition isDigit :: "char \<Rightarrow> bool" where
  "isDigit c = (48 \<le> (of_char c :: int) \<and> (of_char c :: int) \<le> 57)"

definition maxUint64 :: int where
  "maxUint64 = 18446744073709551615"

definition maxInt64 :: int where
  "maxInt64 = 9223372036854775807"

fun ParseUint :: "string \<Rightarrow> int \<Rightarrow> error + int" where
  "ParseUint [] n = Inr n"
| "ParseUint (c # cs) n =
     (if isDigit c then
        (if maxUint64 div 10 + 1 \<le> n then Inl ErrRange
         else (let n1 = n * 10 + (of_char c - 48)
               in if maxUint64 < n1 then Inl ErrRange else ParseUint cs n1))
      else Inl ErrSyntax)"

definition Atoi :: "string \<Rightarrow> error + int" where
  "Atoi s =
     (case s of
        [] \<Rightarrow> Inl (NumError ''Atoi'' s ErrSyntax)
      | c # cs \<Rightarrow>
          (let neg = (c = CHR ''-'');
               ds = (if c = CHR ''+'' \<or> c = CHR ''-'' then cs else s)
           in if ds = [] then Inl (NumError ''Atoi'' s ErrSyntax)
              else (case ParseUint ds 0 of
                      Inl e \<Rightarrow> Inl (NumError ''Atoi'' s e)
                    | Inr un \<Rightarrow>
                        if neg then
                          (if maxInt64 + 1 < un then Inl (NumError ''Atoi'' s ErrRange)
                           else Inr (- un))
                        else
                          (if maxInt64 + 1 \<le> un then Inl (NumError ''Atoi'' s ErrRange)
                           else Inr un))))"

text \<open>\<open>strconv.Itoa\<close>: the decimal digits, with a minus sign for a negative value.\<close>

function fmtDec :: "int \<Rightarrow> string" where
  "fmtDec n =
     (if n < 10 then [char_of (48 + n)]
      else fmtDec (n div 10) @ [char_of (48 + n mod 10)])"
  by pat_completeness auto
termination
  by (relation "measure nat") auto

definition Itoa :: "int \<Rightarrow> string" where
  "Itoa i = (if i < 0 then CHR ''-'' # fmtDec (- i) else fmtDec i)"

text \<open>
  The rest of the standard library is a parameter of the model: \<open>strconv.ParseFloat\<close> at
  64 bits (the type \<open>'f\<close> stands for \<open>float64\<close>), \<open>fmt.Sprintf("%f", x)\<close>, and
  \<open>strconv.Quote\<close>, which the message of a \<open>NumError\<close> applies to the text it could not
  parse.
\<close>

record 'f stdlib =
  ParseFloat :: "string \<Rightarrow> error + 'f"
  Sprintf_f :: "'f \<Rightarrow> string"
  Quote :: "string \<Rightarrow> string"

text \<open>The method \<open>Error()\<close> of an error value.\<close>

fun Error :: "(string \<Rightarrow> string) \<Rightarrow> error \<Rightarrow> string" where
  "Error q (errorString s) = s"
| "Error q (NumError fn num err) =
     ''strconv.'' @ fn @ '': parsing '' @ q num @ '': '' @ Error q err"
| "Error q EOF = ''EOF''"
| "Error q (Panic s) = ''panic: '' @ s"

section \<open>Messages and requests (package azuremodels)\<close>

text \<open>
  Modelled from the spec: the type declarations of package \<open>azuremodels\<close> are not among
  the sources. A \<open>ChatMessageRole\<close> is a Go string type with the values \<open>system\<close>,
  \<open>user\<close> and \<open>assistant\<close>; a \<open>ChatMessage\<close> has a \<open>Content *string\<close> and a role; the
  request \<open>ChatCompletionOptions\<close> has the fields of the request schema, the three
  parameters as pointers (\<open>None\<close> is Go's \<open>nil\<close>: the field is left out of the JSON).
\<close>

type_synonym ChatMessageRole = string

definition ChatMessageRoleAssistant :: ChatMessageRole where
  "ChatMessageRoleAssistant = ''assistant''"

definition ChatMessageRoleSystem :: ChatMessageRole where
  "ChatMessageRoleSystem = ''system''"

definition ChatMessageRoleUser :: ChatMessageRole where
  "ChatMessageRoleUser = ''user''"

record ChatMessage =
  Content :: "string option"
  Role :: ChatMessageRole

record 'f ChatCompletionOptions =
  MaxTokens :: "int option"
  Messages :: "ChatMessage list"
  Model :: string
  Stream :: bool
  Temperature :: "'f option"
  TopP :: "'f option"

section \<open>ModelParameters\<close>

record 'f ModelParameters =
  maxTokens :: "int option"
  temperature :: "'f option"
  topP :: "'f option"

definition notSet :: string where
  "notSet = ''<not set>''"

definition FormatParameter :: "'f stdlib \<Rightarrow> 'f ModelParameters \<Rightarrow> string \<Rightarrow> string" where
  "FormatParameter lib mp name =
     (if name = ''max-tokens'' then
        (case maxTokens mp of Some v \<Rightarrow> Itoa v | None \<Rightarrow> notSet)
      else if name = ''temperature'' then
        (case temperature mp of Some v \<Rightarrow> Sprintf_f lib v | None \<Rightarrow> notSet)
      else if name = ''top-p'' then
        (case topP mp of Some v \<Rightarrow> Sprintf_f lib v | None \<Rightarrow> notSet)
      else notSet)"

text \<open>
  \<open>SetParameterByName\<close> returns the error (\<open>None\<close> is \<open>nil\<close>) and the receiver after the
  call.
\<close>

definition unknownParameter :: "string \<Rightarrow> error" where
  "unknownParameter name =
     errorString (''unknown parameter '' @ [squote] @ name @ [squote] @
                  ''. Supported parameters: max-tokens, temperature, top-p'')"

definition SetParameterByName ::
  "'f stdlib \<Rightarrow> string \<Rightarrow> string \<Rightarrow> 'f ModelParameters \<Rightarrow> error option \<times> 'f ModelParameters"
where
  "SetParameterByName lib name val mp =
     (if name = ''max-tokens'' then
        (case Atoi val of
           Inl err \<Rightarrow> (Some err, mp)
         | Inr v \<Rightarrow> (None, mp\<lparr>maxTokens := Some v\<rparr>))
      else if name = ''temperature'' then
        (case ParseFloat lib val of
           Inl err \<Rightarrow> (Some err, mp)
         | Inr v \<Rightarrow> (None, mp\<lparr>temperature := Some v\<rparr>))
      else if name = ''top-p'' then
        (case ParseFloat lib val of
           Inl err \<Rightarrow> (Some err, mp)
         | Inr v \<Rightarrow> (None, mp\<lparr>topP := Some v\<rparr>))
      else (Some (unknownParameter name), mp))"

definition UpdateRequest ::
  "'f ModelParameters \<Rightarrow> 'f ChatCompletionOptions \<Rightarrow> 'f ChatCompletionOptions" where
  "UpdateRequest mp req =
     req\<lparr>MaxTokens := maxTokens mp, Temperature := temperature mp, TopP := topP mp\<rparr>"

section \<open>Conversation\<close>

record Conversation =
  messages :: "ChatMessage list"
  systemPrompt :: string

definition AddMessage :: "Conversation \<Rightarrow> ChatMessageRole \<Rightarrow> string \<Rightarrow> Conversation" where
  "AddMessage c role content =
     c\<lparr>messages := messages c @ [\<lparr>Content = Some content, Role = role\<rparr>]\<rparr>"

text \<open>
  \<open>GetMessages\<close> as the code builds it: a slice of the final length, made of zero
  messages; the system message stored at index 0 when there is a system prompt; then the
  loop that stores turn \<open>i\<close> at index \<open>startIndex + i\<close>.
\<close>

definition zeroMessage :: ChatMessage where
  "zeroMessage = \<lparr>Content = None, Role = []\<rparr>"

definition systemMessage :: "string \<Rightarrow> ChatMessage" where
  "systemMessage p = \<lparr>Content = Some p, Role = ChatMessageRoleSystem\<rparr>"

fun copyFrom :: "nat \<Rightarrow> ChatMessage list \<Rightarrow> ChatMessage list \<Rightarrow> ChatMessage list" where
  "copyFrom k [] out = out"
| "copyFrom k (m # ms) out = copyFrom (Suc k) ms (out[k := m])"

definition GetMessages :: "Conversation \<Rightarrow> ChatMessage list" where
  "GetMessages c =
     (let n = (if systemPrompt c = [] then length (messages c) else length (messages c) + 1);
          made = replicate n zeroMessage;
          startIndex = (if systemPrompt c = [] then 0 else 1);
          made1 = (if systemPrompt c = [] then made
                   else made[0 := systemMessage (systemPrompt c)])
      in copyFrom startIndex (messages c) made1)"

definition Reset :: "Conversation \<Rightarrow> Conversation" where
  "Reset c = c\<lparr>messages := []\<rparr>"

section \<open>The completion stream client\<close>

text \<open>
  \<open>Client.GetChatCompletionStream\<close> and \<open>Client.handleHTTPError\<close>. The HTTP client's
  \<open>Do\<close> and \<open>json.Marshal\<close> are parameters; \<open>http.NewRequest\<close> with the constant method
  and URL has no failing case. The result records what the caller gets back
  (the error, or the body that the event reader is opened on), the requests that were
  issued, and whether the response body was closed when the function returned.
\<close>

record HTTPRequest =
  Method :: string
  URL :: string
  Header :: "(string \<times> string) list"
  Body :: string

record HTTPResponse =
  StatusCode :: int
  Status :: string
  RespBody :: string

record Client =
  Do :: "HTTPRequest \<Rightarrow> error + HTTPResponse"
  token :: string

record StreamCall =
  returned :: "error + string"
  issued :: "HTTPRequest list"
  bodyClosed :: bool

definition prodInferenceURL :: string where
  "prodInferenceURL = ''https://models.inference.ai.azure.com/chat/completions''"

definition StatusOK :: int where
  "StatusOK = 200"

definition StatusBadRequest :: int where
  "StatusBadRequest = 400"

definition StatusUnauthorized :: int where
  "StatusUnauthorized = 401"

definition handleHTTPError :: "HTTPResponse \<Rightarrow> error" where
  "handleHTTPError resp =
     (let sb = (if StatusCode resp = StatusUnauthorized then ''unauthorized''
                else if StatusCode resp = StatusBadRequest then ''bad request''
                else ''unexpected response from the server: '' @ Status resp);
          body = RespBody resp;
          sb1 = (if 0 < length body then sb @ ''\<newline>'' @ body @ ''\<newline>'' else sb)
      in errorString sb1)"

definition newPost :: "string \<Rightarrow> string \<Rightarrow> HTTPRequest" where
  "newPost tok bodyBytes =
     \<lparr>Method = ''POST'', URL = prodInferenceURL,
      Header = [(''Authorization'', ''Bearer '' @ tok), (''Content-Type'', ''application/json'')],
      Body = bodyBytes\<rparr>"

definition GetChatCompletionStream ::
  "('f ChatCompletionOptions \<Rightarrow> error + string) \<Rightarrow> Client \<Rightarrow> 'f ChatCompletionOptions \<Rightarrow> StreamCall"
where
  "GetChatCompletionStream marshal c req =
     (let req1 = req\<lparr>Stream := True\<rparr>
      in case marshal req1 of
           Inl err \<Rightarrow> \<lparr>returned = Inl err, issued = [], bodyClosed = False\<rparr>
         | Inr bodyBytes \<Rightarrow>
             (let httpReq = newPost (token c) bodyBytes
              in case Do c httpReq of
                   Inl err \<Rightarrow> \<lparr>returned = Inl err, issued = [httpReq], bodyClosed = False\<rparr>
                 | Inr resp \<Rightarrow>
                     if StatusCode resp = StatusOK
                     then \<lparr>returned = Inr (RespBody resp), issued = [httpReq],
                           bodyClosed = False\<rparr>
                     else \<lparr>returned = Inl (handleHTTPError resp), issued = [httpReq],
                           bodyClosed = True\<rparr>))"

section \<open>The session loop\<close>

text \<open>
  Modelled from the spec: the chunk types of package \<open>azuremodels\<close> are not among the
  sources. A \<open>ChatChoice\<close> has the pointers \<open>Delta\<close> and \<open>Message\<close>, each to a struct
  with a \<open>Content *string\<close>: \<open>Some (Some t)\<close> is a struct that is there with a content that
  is there. A \<open>ChatCompletion\<close> is a list of choices.
\<close>

record ChatChoice =
  Delta :: "string option option"
  Message :: "string option option"

record ChatCompletion =
  Choices :: "ChatChoice list"

text \<open>
  Modelled from the spec: \<open>util.WriteToOut\<close> is not among the sources; the output sink
  takes the texts in the order of the calls.
\<close>

definition WriteToOut :: "string list \<Rightarrow> string \<Rightarrow> string list" where
  "WriteToOut out s = out @ [s]"

text \<open>
  A \<open>strings.Builder\<close> is a struct of the bytes written so far and of \<open>addr\<close>, the address
  of the variable that was first written through. \<open>WriteString\<close> has a pointer receiver:
  \<open>self\<close> is the address of the variable it is called on. A builder that was written to
  and then copied to another variable panics on the next write.
\<close>

record Builder =
  addr :: "nat option"
  buf :: string

definition zeroBuilder :: Builder where
  "zeroBuilder = \<lparr>addr = None, buf = []\<rparr>"

definition WriteString :: "nat \<Rightarrow> Builder \<Rightarrow> string \<Rightarrow> error + Builder" where
  "WriteString self b s =
     (case addr b of
        None \<Rightarrow> Inr \<lparr>addr = Some self, buf = buf b @ s\<rparr>
      | Some a \<Rightarrow>
          if a = self then Inr (b\<lparr>buf := buf b @ s\<rparr>)
          else Inl (Panic ''strings: illegal use of non-zero Builder copied by value''))"

text \<open>
  The two builder variables of the program: \<open>messageBuilder\<close> of the loop body in
  \<open>RunE\<close>, and the parameter \<open>messageBuilder\<close> of \<open>handleCompletionChoice\<close>, which Go
  fills with a copy of the argument at each call.
\<close>

definition loopBuilderAddr :: nat where
  "loopBuilderAddr = 0"

definition paramBuilderAddr :: nat where
  "paramBuilderAddr = 1"

text \<open>
  \<open>handleCompletionChoice\<close> returns its error and the output sink. The builder it writes
  to is its own parameter variable, which ends with the call. The pause between tokens on
  a terminal is left out.
\<close>

definition handleCompletionChoice ::
  "ChatChoice \<Rightarrow> Builder \<Rightarrow> string list \<Rightarrow> error option \<times> string list" where
  "handleCompletionChoice choice messageBuilder out =
     (case Delta choice of
        Some (Some content) \<Rightarrow>
          (case WriteString paramBuilderAddr messageBuilder content of
             Inl err \<Rightarrow> (Some err, out)
           | Inr messageBuilder1 \<Rightarrow> (None, WriteToOut out content))
      | _ \<Rightarrow>
          (case Message choice of
             Some (Some content) \<Rightarrow>
               (case WriteString paramBuilderAddr messageBuilder content of
                  Inl err \<Rightarrow> (Some err, out)
                | Inr messageBuilder1 \<Rightarrow> (None, WriteToOut out content))
           | _ \<Rightarrow> (None, out)))"

text \<open>
  The in-band command handlers. Each takes \<open>Conversation\<close> or \<open>ModelParameters\<close> as a
  struct value, so what it assigns goes to its own parameter variable; it returns nothing,
  and its effect on the caller is what it wrote to the output sink.
\<close>

definition handleParametersPrompt ::
  "'f stdlib \<Rightarrow> string list \<Rightarrow> Conversation \<Rightarrow> 'f ModelParameters \<Rightarrow> string list" where
  "handleParametersPrompt lib out conversation mp =
     (let out1 = WriteToOut out ''Current parameters:\<newline>'';
          out2 = foldl (\<lambda>w name. WriteToOut w
                    (''  '' @ name @ '': '' @ FormatParameter lib mp name @ ''\<newline>''))
                   out1 [''max-tokens'', ''temperature'', ''top-p''];
          out3 = WriteToOut out2 ''\<newline>'';
          out4 = WriteToOut out3 ''System Prompt:\<newline>''
      in if systemPrompt conversation = [] then WriteToOut out4 ''  <not set>\<newline>''
         else WriteToOut out4 (''  '' @ systemPrompt conversation @ ''\<newline>''))"

definition handleResetPrompt :: "string list \<Rightarrow> Conversation \<Rightarrow> string list" where
  "handleResetPrompt out conversation =
     (let conversation1 = Reset conversation
      in WriteToOut out ''Reset chat history\<newline>'')"

definition handleSetPrompt ::
  "'f stdlib \<Rightarrow> string list \<Rightarrow> string \<Rightarrow> 'f ModelParameters \<Rightarrow> string list" where
  "handleSetPrompt lib out prompt mp =
     (let parts = Split prompt (CHR '' '')
      in if length parts = 3 then
           (let name = parts ! 1;
                val = parts ! 2
            in case SetParameterByName lib name val mp of
                 (Some err, mp1) \<Rightarrow> WriteToOut out (Error (Quote lib) err @ ''\<newline>'')
               | (None, mp1) \<Rightarrow>
                   WriteToOut out (''Set '' @ name @ '' to '' @ val @ ''\<newline>''))
         else WriteToOut out ''Invalid /set syntax. Usage: /set <name> <value>\<newline>'')"

definition handleSystemPrompt :: "string list \<Rightarrow> string \<Rightarrow> Conversation \<Rightarrow> string list" where
  "handleSystemPrompt out prompt conversation =
     (let conversation1 =
            conversation\<lparr>systemPrompt := Trim (TrimPrefix prompt ''/system-prompt '') [dquote]\<rparr>
      in WriteToOut out ''Updated system prompt\<newline>'')"

definition handleHelpPrompt :: "string list \<Rightarrow> string list" where
  "handleHelpPrompt out =
     foldl WriteToOut out
       [''Commands:\<newline>'',
        ''  /bye, /exit, /quit - Exit the chat\<newline>'',
        ''  /parameters - Show current model parameters\<newline>'',
        ''  /reset, /clear - Reset chat context\<newline>'',
        ''  /set <name> <value> - Set a model parameter\<newline>'',
        ''  /system-prompt <prompt> - Set the system prompt\<newline>'',
        ''  /help - Show this help message\<newline>'']"

definition handleUnrecognizedPrompt :: "string list \<Rightarrow> string \<Rightarrow> string list" where
  "handleUnrecognizedPrompt out prompt =
     WriteToOut out
       (''Unknown command '' @ [squote] @ prompt @ [squote] @
        ''. See /help for supported commands.\<newline>'')"

text \<open>
  What the loop of \<open>RunE\<close> works with. The environment holds what is fixed before the
  loop starts: the standard library, the client (a request gives an error, or a reader:
  the completions that \<open>Read\<close> returns one by one and the error it returns after them,
  \<open>io.EOF\<close> at a clean end), the model name and the one-shot flag. The state holds the
  variables the loop assigns and its traffic: the conversation, the parameters, the
  initial prompt not yet used, the lines that the reads of standard input are going to
  return (a read after the last one fails with \<open>io.EOF\<close>), the texts written to the
  output sink, the prompts printed on standard output, and the requests passed to the
  client. The spinner and the deferred calls are left out.
\<close>

record 'f Env =
  envLib :: "'f stdlib"
  envStream :: "'f ChatCompletionOptions \<Rightarrow> error + (ChatCompletion list \<times> error)"
  modelName :: string
  singleShot :: bool

record 'f Session =
  conversation :: Conversation
  mp :: "'f ModelParameters"
  initialPrompt :: string
  stdin :: "string list"
  outW :: "string list"
  stdoutW :: "string list"
  requests :: "'f ChatCompletionOptions list"

datatype outcome = Continue | Break | Return error

text \<open>The loop over the choices of one completion, and the loop over the reader.\<close>

fun choicesLoop :: "ChatChoice list \<Rightarrow> Builder \<Rightarrow> string list \<Rightarrow> error option \<times> string list"
where
  "choicesLoop [] messageBuilder out = (None, out)"
| "choicesLoop (choice # rest) messageBuilder out =
     (case handleCompletionChoice choice messageBuilder out of
        (Some err, out1) \<Rightarrow> (Some err, out1)
      | (None, out1) \<Rightarrow> choicesLoop rest messageBuilder out1)"

fun readLoop ::
  "ChatCompletion list \<Rightarrow> error \<Rightarrow> Builder \<Rightarrow> string list \<Rightarrow> error option \<times> string list"
where
  "readLoop [] final messageBuilder out =
     (if final = EOF then (None, out) else (Some final, out))"
| "readLoop (completion # rest) final messageBuilder out =
     (case choicesLoop (Choices completion) messageBuilder out of
        (Some err, out1) \<Rightarrow> (Some err, out1)
      | (None, out1) \<Rightarrow> readLoop rest final messageBuilder out1)"

definition newRequest :: "string \<Rightarrow> ChatMessage list \<Rightarrow> 'f ChatCompletionOptions" where
  "newRequest name msgs =
     \<lparr>MaxTokens = None, Messages = msgs, Model = name, Stream = False,
      Temperature = None, TopP = None\<rparr>"

text \<open>The part of the loop body that talks to the model.\<close>

definition exchange :: "'f Env \<Rightarrow> string \<Rightarrow> 'f Session \<Rightarrow> outcome \<times> 'f Session" where
  "exchange env prompt s =
     (let conversation1 = AddMessage (conversation s) ChatMessageRoleUser prompt;
          req = UpdateRequest (mp s) (newRequest (modelName env) (GetMessages conversation1));
          s1 = s\<lparr>conversation := conversation1, requests := requests s @ [req]\<rparr>
      in case envStream env req of
           Inl err \<Rightarrow> (Return err, s1)
         | Inr (completions, final) \<Rightarrow>
             (let messageBuilder = zeroBuilder
              in case readLoop completions final messageBuilder (outW s1) of
                   (Some err, out1) \<Rightarrow> (Return err, s1\<lparr>outW := out1\<rparr>)
                 | (None, out1) \<Rightarrow>
                     (let out2 = WriteToOut out1 ''\<newline>''
                      in case WriteString loopBuilderAddr messageBuilder ''\<newline>'' of
                           Inl err \<Rightarrow> (Return err, s1\<lparr>outW := out2\<rparr>)
                         | Inr messageBuilder1 \<Rightarrow>
                             (let conversation2 =
                                    AddMessage conversation1 ChatMessageRoleAssistant
                                      (buf messageBuilder1)
                              in (if singleShot env then Break else Continue,
                                  s1\<lparr>conversation := conversation2, outW := out2\<rparr>)))))"

text \<open>The part of the loop body for a prompt that starts with a slash.\<close>

definition command :: "'f Env \<Rightarrow> string \<Rightarrow> 'f Session \<Rightarrow> outcome \<times> 'f Session" where
  "command env prompt s =
     (if prompt = ''/bye'' \<or> prompt = ''/exit'' \<or> prompt = ''/quit'' then (Break, s)
      else if prompt = ''/parameters'' then
        (Continue, s\<lparr>outW := handleParametersPrompt (envLib env) (outW s) (conversation s) (mp s)\<rparr>)
      else if prompt = ''/reset'' \<or> prompt = ''/clear'' then
        (Continue, s\<lparr>outW := handleResetPrompt (outW s) (conversation s)\<rparr>)
      else if HasPrefix prompt ''/set '' then
        (Continue, s\<lparr>outW := handleSetPrompt (envLib env) (outW s) prompt (mp s)\<rparr>)
      else if HasPrefix prompt ''/system-prompt '' then
        (Continue, s\<lparr>outW := handleSystemPrompt (outW s) prompt (conversation s)\<rparr>)
      else if prompt = ''/help'' then
        (Continue, s\<lparr>outW := handleHelpPrompt (outW s)\<rparr>)
      else (Continue, s\<lparr>outW := handleUnrecognizedPrompt (outW s) prompt\<rparr>))"

definition dispatch :: "'f Env \<Rightarrow> string \<Rightarrow> 'f Session \<Rightarrow> outcome \<times> 'f Session" where
  "dispatch env prompt s =
     (if prompt = [] then (Continue, s)
      else if HasPrefix prompt ''/'' then command env prompt s
      else exchange env prompt s)"

text \<open>One pass through the body of the loop: how it leaves the body, and the state then.\<close>

definition body :: "'f Env \<Rightarrow> 'f Session \<Rightarrow> outcome \<times> 'f Session" where
  "body env s =
     (let (prompt, s1) = (if initialPrompt s = [] then ([], s)
                          else (initialPrompt s, s\<lparr>initialPrompt := []\<rparr>))
      in if prompt = [] then
           (let s2 = s1\<lparr>stdoutW := stdoutW s1 @ [''>>> '']\<rparr>
            in case stdin s2 of
                 [] \<Rightarrow> (Return EOF, s2)
               | line # rest \<Rightarrow> dispatch env (TrimSpace line) (s2\<lparr>stdin := rest\<rparr>))
         else dispatch env (TrimSpace prompt) s1)"

definition pending :: "'f Session \<Rightarrow> nat" where
  "pending s = length (stdin s) + (if initialPrompt s = [] then 0 else 1)"

text \<open>
  The loop. It returns the error of \<open>RunE\<close> (\<open>None\<close> is \<open>nil\<close>) and the last state. Each
  pass that continues has used up the initial prompt or one line of standard input, so
  the loop ends on every finite input.
\<close>

function loop :: "'f Env \<Rightarrow> 'f Session \<Rightarrow> error option \<times> 'f Session" where
  "loop env s =
     (case body env s of
        (Continue, s1) \<Rightarrow> loop env s1
      | (Break, s1) \<Rightarrow> (None, s1)
      | (Return err, s1) \<Rightarrow> (Some err, s1))"
  by pat_completeness auto
termination loop
proof (relation "measure (\<lambda>(env, s). pending s)")
  show "wf (measure (\<lambda>(env, s). pending s))" by simp
next
  fix env :: "'f Env" and s :: "'f Session" and x1 x2
  assume "(x1, x2) = body env s" and "x1 = Continue"
  then have b: "body env s = (Continue, x2)" by simp
  have e: "stdin (snd (exchange env p t)) = stdin t \<and>
           initialPrompt (snd (exchange env p t)) = initialPrompt t" for p t
    by (simp add: exchange_def Let_def split: sum.split prod.split option.split)
  have c: "stdin (snd (command env p t)) = stdin t \<and>
           initialPrompt (snd (command env p t)) = initialPrompt t" for p t
    by (simp add: command_def)
  have d: "stdin (snd (dispatch env p t)) = stdin t \<and>
           initialPrompt (snd (dispatch env p t)) = initialPrompt t" for p t
    by (simp add: dispatch_def e c)
  have "pending x2 < pending s"
  proof (cases "initialPrompt s = []")
    case True
    show ?thesis
    proof (cases "stdin s")
      case Nil
      with True b show ?thesis by (simp add: body_def)
    next
      case (Cons line rest)
      with True b have
        "x2 = snd (dispatch env (TrimSpace line)
                     (s\<lparr>stdoutW := stdoutW s @ [''>>> ''], stdin := rest\<rparr>))"
        by (simp add: body_def)
      with True Cons show ?thesis
        by (simp add: pending_def d)
    qed
  next
    case False
    with b have
      "x2 = snd (dispatch env (TrimSpace (initialPrompt s)) (s\<lparr>initialPrompt := []\<rparr>))"
      by (simp add: body_def)
    with False show ?thesis
      by (simp add: pending_def d)
  qed
  then show "((env, x2), (env, s)) \<in> measure (\<lambda>(env, s). pending s)"
    by simp
qed

declare loop.simps [simp del]

text \<open>
  The start of \<open>RunE\<close>, after the token, the catalogue and the model name: the initial
  prompt and the one-shot flag from the arguments (\<open>args\<close>, the model name first) and from
  standard input when it is a pipe (\<open>pipe\<close> is \<open>None\<close> when it is not, else all that
  \<open>io.ReadAll\<close> read from it); the flags; then the loop. After \<open>io.ReadAll\<close> a pipe has
  nothing left to read.
\<close>

definition startPrompt :: "string list \<Rightarrow> string option \<Rightarrow> string \<times> bool" where
  "startPrompt args pipe =
     (let (initialPrompt0, singleShot0) =
            (if 1 < length args then (Join (drop 1 args) '' '', True) else ([], False))
      in case pipe of
           None \<Rightarrow> (initialPrompt0, singleShot0)
         | Some promptFromPipe \<Rightarrow>
             if 0 < length promptFromPipe
             then (initialPrompt0 @ ''\<newline>'' @ promptFromPipe, True)
             else (initialPrompt0, singleShot0))"

record Flags =
  flagMaxTokens :: string
  flagTemperature :: string
  flagTopP :: string
  flagSystemPrompt :: string

definition PopulateFromFlags ::
  "'f stdlib \<Rightarrow> 'f ModelParameters \<Rightarrow> Flags \<Rightarrow> error option \<times> 'f ModelParameters" where
  "PopulateFromFlags lib mp0 flags =
     (case (if flagMaxTokens flags = [] then Inr mp0
            else (case Atoi (flagMaxTokens flags) of
                    Inl err \<Rightarrow> Inl (err, mp0)
                  | Inr v \<Rightarrow> Inr (mp0\<lparr>maxTokens := Some v\<rparr>))) of
        Inl (err, mp1) \<Rightarrow> (Some err, mp1)
      | Inr mp1 \<Rightarrow>
          (case (if flagTemperature flags = [] then Inr mp1
                 else (case ParseFloat lib (flagTemperature flags) of
                         Inl err \<Rightarrow> Inl (err, mp1)
                       | Inr v \<Rightarrow> Inr (mp1\<lparr>temperature := Some v\<rparr>))) of
             Inl (err, mp2) \<Rightarrow> (Some err, mp2)
           | Inr mp2 \<Rightarrow>
               (if flagTopP flags = [] then (None, mp2)
                else (case ParseFloat lib (flagTopP flags) of
                        Inl err \<Rightarrow> (Some err, mp2)
                      | Inr v \<Rightarrow> (None, mp2\<lparr>topP := Some v\<rparr>)))))"

definition RunE ::
  "'f stdlib \<Rightarrow> ('f ChatCompletionOptions \<Rightarrow> error + (ChatCompletion list \<times> error)) \<Rightarrow>
   string \<Rightarrow> string list \<Rightarrow> string option \<Rightarrow> Flags \<Rightarrow> string list \<Rightarrow>
   error option \<times> 'f Session" where
  "RunE lib strm name args pipe flags lines =
     (let (initialPrompt0, singleShot0) = startPrompt args pipe;
          s0 = \<lparr>conversation = \<lparr>messages = [], systemPrompt = flagSystemPrompt flags\<rparr>,
                mp = \<lparr>maxTokens = None, temperature = None, topP = None\<rparr>,
                initialPrompt = initialPrompt0,
                stdin = (case pipe of None \<Rightarrow> lines | Some promptFromPipe \<Rightarrow> []),
                outW = [], stdoutW = [], requests = []\<rparr>
      in case PopulateFromFlags lib (mp s0) flags of
           (Some err, mp1) \<Rightarrow> (Some err, s0\<lparr>mp := mp1\<rparr>)
         | (None, mp1) \<Rightarrow>
             loop \<lparr>envLib = lib, envStream = strm, modelName = name, singleShot = singleShot0\<rparr>
               (s0\<lparr>mp := mp1\<rparr>))"

section \<open>An instance of the standard library for concrete runs\<close>

text \<open>
  For the concrete runs below the parameters are instantiated: a float is a decimal
  fraction \<open>(m, k)\<close>, standing for \<open>m / 10 ^ k\<close>; \<open>ParseFloat\<close> reads a sign, digits and
  at most one point, and rejects every other text; \<open>%f\<close> prints six decimals; \<open>Quote\<close>
  puts the text between double quotes, which is what Go does for printable ASCII text
  without quotes and backslashes.
\<close>

fun digitsVal :: "string \<Rightarrow> int \<Rightarrow> int" where
  "digitsVal [] n = n"
| "digitsVal (c # cs) n = digitsVal cs (n * 10 + (of_char c - 48))"

definition decimalParseFloat :: "string \<Rightarrow> error + (int \<times> nat)" where
  "decimalParseFloat s =
     (let neg = HasPrefix s ''-'';
          ds = (if HasPrefix s ''-'' \<or> HasPrefix s ''+'' then drop 1 s else s);
          ip = takeWhile (\<lambda>c. c \<noteq> CHR ''.'') ds;
          fp = drop (length ip + 1) ds
      in if ip @ fp \<noteq> [] \<and> list_all isDigit (ip @ fp)
         then Inr ((if neg then - 1 else 1) * digitsVal (ip @ fp) 0, length fp)
         else Inl (NumError ''ParseFloat'' s ErrSyntax))"

definition decimalSprintf :: "int \<times> nat \<Rightarrow> string" where
  "decimalSprintf x =
     (let (m, k) = x;
          scaled = (\<bar>m\<bar> * 2000000 + 10 ^ k) div (2 * 10 ^ k);
          fs = fmtDec (scaled mod 1000000)
      in (if m < 0 then ''-'' else []) @ fmtDec (scaled div 1000000) @ ''.'' @
         replicate (6 - length fs) (CHR ''0'') @ fs)"

definition decimalLib :: "(int \<times> nat) stdlib" where
  "decimalLib =
     \<lparr>ParseFloat = decimalParseFloat, Sprintf_f = decimalSprintf,
      Quote = (\<lambda>s. dquote # s @ [dquote])\<rparr>"

definition noParams :: "(int \<times> nat) ModelParameters" where
  "noParams = \<lparr>maxTokens = None, temperature = None, topP = None\<rparr>"

text \<open>
  The spec's words for what a choice contributes: the content of the delta when the delta
  has one, else the content of the message when it has one, else nothing; and the
  contributions of a stream, in the order of arrival.
\<close>

definition fragment :: "ChatChoice \<Rightarrow> string option" where
  "fragment choice =
     (case Delta choice of
        Some (Some t) \<Rightarrow> Some t
      | _ \<Rightarrow> (case Message choice of Some (Some t) \<Rightarrow> Some t | _ \<Rightarrow> None))"

definition fragments :: "ChatCompletion list \<Rightarrow> string list" where
  "fragments cs = concat (map (\<lambda>c. List.map_filter fragment (Choices c)) cs)"

text \<open>
  The concrete runs: no flags; a client that answers every request with the chunks
  \<open>Hel\<close> and \<open>lo\<close> and then ends; a session that has just started; an encoding that
  shows the stream flag; an HTTP client whose server answers 401.
\<close>

definition noFlags :: Flags where
  "noFlags = \<lparr>flagMaxTokens = [], flagTemperature = [], flagTopP = [], flagSystemPrompt = []\<rparr>"

definition scripted ::
  "(int \<times> nat) ChatCompletionOptions \<Rightarrow> error + (ChatCompletion list \<times> error)" where
  "scripted req =
     Inr ([\<lparr>Choices = [\<lparr>Delta = Some (Some ''Hel''), Message = None\<rparr>]\<rparr>,
           \<lparr>Choices = [\<lparr>Delta = Some (Some ''lo''), Message = None\<rparr>]\<rparr>], EOF)"

definition scriptedEnv :: "(int \<times> nat) Env" where
  "scriptedEnv =
     \<lparr>envLib = decimalLib, envStream = scripted, modelName = ''gpt'', singleShot = False\<rparr>"

definition freshSession :: "(int \<times> nat) Session" where
  "freshSession =
     \<lparr>conversation = \<lparr>messages = [], systemPrompt = []\<rparr>, mp = noParams,
      initialPrompt = [], stdin = [], outW = [], stdoutW = [], requests = []\<rparr>"

definition streamOnly :: "(int \<times> nat) ChatCompletionOptions \<Rightarrow> error + string" where
  "streamOnly req = Inr (if Stream req then ''stream=true'' else ''stream=false'')"

definition refusing :: Client where
  "refusing =
     \<lparr>Do = (\<lambda>r. Inr \<lparr>StatusCode = 401, Status = ''401 Unauthorized'',
                        RespBody = ''bad credentials''\<rparr>),
      token = ''t0''\<rparr>"

section \<open>Conversation: the message view\<close>

lemma copyFrom_append:
  "length out = k + length ms + r \<Longrightarrow>
   copyFrom k ms out = take k out @ ms @ drop (k + length ms) out"
proof (induction ms arbitrary: k out)
  case Nil
  then show ?case by simp
next
  case (Cons m ms)
  have len: "length (out[k := m]) = Suc k + length ms + r"
    using Cons.prems by simp
  have "copyFrom (Suc k) ms (out[k := m]) =
          take (Suc k) (out[k := m]) @ ms @ drop (Suc k + length ms) (out[k := m])"
    by (rule Cons.IH [OF len])
  moreover have "take (Suc k) (out[k := m]) = take k out @ [m]"
    using Cons.prems by (simp add: take_Suc_conv_app_nth)
  moreover have "drop (Suc k + length ms) (out[k := m]) = drop (k + length (m # ms)) out"
    by simp
  ultimately show ?case by simp
qed

lemma GetMessages_eq:
  "GetMessages c =
     (if systemPrompt c = [] then [] else [systemMessage (systemPrompt c)]) @ messages c"
proof (cases "systemPrompt c = []")
  case True
  have "copyFrom 0 (messages c) (replicate (length (messages c)) zeroMessage) = messages c"
    using copyFrom_append [of "replicate (length (messages c)) zeroMessage" 0 "messages c" 0]
    by simp
  with True show ?thesis by (simp add: GetMessages_def)
next
  case False
  let ?made = "(replicate (length (messages c) + 1) zeroMessage)[0 := systemMessage (systemPrompt c)]"
  have "copyFrom 1 (messages c) ?made =
          take 1 ?made @ messages c @ drop (1 + length (messages c)) ?made"
    by (rule copyFrom_append [where r = 0]) simp
  moreover have "take 1 ?made = [systemMessage (systemPrompt c)]"
    by (simp add: take_Suc_conv_app_nth)
  ultimately show ?thesis using False by (simp add: GetMessages_def)
qed

text \<open>
  C5. For every conversation, \<open>GetMessages\<close> is the stored turns, unchanged and in order,
  after exactly one message of role \<open>system\<close> whose content is the system prompt when the
  system prompt is not empty, and after nothing when it is empty. It is computed from the conversation it is called on: after \<open>Reset\<close>
  it is the system message alone (or nothing), after \<open>AddMessage\<close> it ends with the new
  turn, and with another system prompt it starts with that one.
\<close>

theorem C5_GetMessages_view:
  "GetMessages c =
     (if systemPrompt c = [] then []
      else [\<lparr>Content = Some (systemPrompt c), Role = ''system''\<rparr>]) @ messages c \<and>
   GetMessages (Reset c) =
     (if systemPrompt c = [] then []
      else [\<lparr>Content = Some (systemPrompt c), Role = ''system''\<rparr>]) \<and>
   GetMessages (AddMessage c role t) = GetMessages c @ [\<lparr>Content = Some t, Role = role\<rparr>] \<and>
   GetMessages (c\<lparr>systemPrompt := p\<rparr>) =
     (if p = [] then [] else [\<lparr>Content = Some p, Role = ''system''\<rparr>]) @ messages c"
  by (simp add: GetMessages_eq Reset_def AddMessage_def systemMessage_def
        ChatMessageRoleSystem_def)

text \<open>
  An instance: a conversation of two turns with the system prompt \<open>be brief\<close>, and the
  same turns without a system prompt.
\<close>

theorem C5_GetMessages_view_witness:
  "GetMessages \<lparr>messages = [\<lparr>Content = Some ''hi'', Role = ''user''\<rparr>,
                            \<lparr>Content = Some ''yo'', Role = ''assistant''\<rparr>],
                systemPrompt = ''be brief''\<rparr> =
     [\<lparr>Content = Some ''be brief'', Role = ''system''\<rparr>,
      \<lparr>Content = Some ''hi'', Role = ''user''\<rparr>,
      \<lparr>Content = Some ''yo'', Role = ''assistant''\<rparr>] \<and>
   GetMessages (Reset \<lparr>messages = [\<lparr>Content = Some ''hi'', Role = ''user''\<rparr>,
                                   \<lparr>Content = Some ''yo'', Role = ''assistant''\<rparr>],
                       systemPrompt = ''be brief''\<rparr>) =
     [\<lparr>Content = Some ''be brief'', Role = ''system''\<rparr>] \<and>
   GetMessages \<lparr>messages = [\<lparr>Content = Some ''hi'', Role = ''user''\<rparr>,
                            \<lparr>Content = Some ''yo'', Role = ''assistant''\<rparr>],
                systemPrompt = []\<rparr> =
     [\<lparr>Content = Some ''hi'', Role = ''user''\<rparr>,
      \<lparr>Content = Some ''yo'', Role = ''assistant''\<rparr>] \<and>
   GetMessages (Reset \<lparr>messages = [\<lparr>Content = Some ''hi'', Role = ''user''\<rparr>,
                                   \<lparr>Content = Some ''yo'', Role = ''assistant''\<rparr>],
                       systemPrompt = []\<rparr>) = []"
  using C5_GetMessages_view
      [where c = "\<lparr>messages = [\<lparr>Content = Some ''hi'', Role = ''user''\<rparr>,
                               \<lparr>Content = Some ''yo'', Role = ''assistant''\<rparr>],
                   systemPrompt = ''be brief''\<rparr>"]
    C5_GetMessages_view
      [where c = "\<lparr>messages = [\<lparr>Content = Some ''hi'', Role = ''user''\<rparr>,
                               \<lparr>Content = Some ''yo'', Role = ''assistant''\<rparr>],
                   systemPrompt = []\<rparr>"]
  by simp

section \<open>ModelParameters: applying, setting, formatting\<close>

text \<open>
  C6, as the claim states it, fails: with no parameter set, a request that already has
  \<open>max_tokens = 5\<close> does not keep it.
\<close>

theorem C6_unset_parameter_clears_field:
  "MaxTokens (newRequest ''m'' [] \<lparr>MaxTokens := Some 5\<rparr> :: (int \<times> nat) ChatCompletionOptions) = Some 5 \<and>
   MaxTokens (UpdateRequest noParams (newRequest ''m'' [] \<lparr>MaxTokens := Some 5\<rparr>)) = None"
  by (simp add: UpdateRequest_def noParams_def newRequest_def)

text \<open>
  C6, amended. \<open>UpdateRequest\<close> assigns each of \<open>MaxTokens\<close>, \<open>Temperature\<close> and \<open>TopP\<close>
  of the request the value of the parameter set, set or not: a parameter that is set is
  copied, one that is not set clears the field. The messages, the model and the stream
  flag are untouched. On the request that the session has just built, where the three
  fields are not set, a parameter set with nothing set changes nothing.
\<close>

theorem C6_UpdateRequest_assigns:
  "MaxTokens (UpdateRequest m r) = maxTokens m \<and>
   Temperature (UpdateRequest m r) = temperature m \<and>
   TopP (UpdateRequest m r) = topP m \<and>
   Messages (UpdateRequest m r) = Messages r \<and>
   Model (UpdateRequest m r) = Model r \<and>
   Stream (UpdateRequest m r) = Stream r \<and>
   UpdateRequest \<lparr>maxTokens = None, temperature = None, topP = None\<rparr> (newRequest name ms) =
     newRequest name ms"
  by (simp add: UpdateRequest_def newRequest_def)

lemma ParseUint_error:
  "ParseUint ds n = Inl e \<Longrightarrow> e = ErrSyntax \<or> e = ErrRange"
  by (induction ds arbitrary: n) (auto simp: Let_def split: if_splits)

lemma Atoi_error:
  assumes "Atoi v = Inl e"
  shows "e = NumError ''Atoi'' v ErrSyntax \<or> e = NumError ''Atoi'' v ErrRange"
  using assms ParseUint_error
  by (fastforce simp: Atoi_def Let_def split: list.splits if_splits sum.splits)

text \<open>
  C7, as the claim states it, fails for a recognized name: the error for
  \<open>max-tokens\<close> with the text \<open>abc\<close> is the \<open>NumError\<close> of \<open>strconv.Atoi\<close>, whose message
  does not hold the parameter's name, and \<open>temperature\<close> and \<open>top-p\<close> fail with one and
  the same error.
\<close>

theorem C7_parse_error_names_no_field:
  "fst (SetParameterByName decimalLib ''max-tokens'' ''abc'' noParams) =
     Some (NumError ''Atoi'' ''abc'' ErrSyntax) \<and>
   Error (Quote decimalLib) (NumError ''Atoi'' ''abc'' ErrSyntax) =
     ''strconv.Atoi: parsing '' @ [dquote] @ ''abc'' @ [dquote] @ '': invalid syntax'' \<and>
   \<not> sublist ''max-tokens'' (Error (Quote decimalLib) (NumError ''Atoi'' ''abc'' ErrSyntax)) \<and>
   fst (SetParameterByName decimalLib ''temperature'' ''abc'' noParams) =
     fst (SetParameterByName decimalLib ''top-p'' ''abc'' noParams)"
  by code_simp

text \<open>
  C7, amended. For every name outside \<open>max-tokens\<close>, \<open>temperature\<close>, \<open>top-p\<close>,
  \<open>SetParameterByName\<close> fails with an error whose message holds the name, and changes no
  field. For a recognized name with a text that the parser rejects it fails with that
  very error of the parser and changes no field: for \<open>max-tokens\<close> a \<open>NumError\<close> of
  \<open>Atoi\<close> that carries the text, for a syntax or a range error; for \<open>temperature\<close> and
  \<open>top-p\<close> the error of \<open>ParseFloat\<close>, the same for both names.
\<close>

theorem C7_SetParameterByName_failure:
  "(name \<noteq> ''max-tokens'' \<and> name \<noteq> ''temperature'' \<and> name \<noteq> ''top-p'' \<longrightarrow>
      SetParameterByName lib name v m = (Some (unknownParameter name), m) \<and>
      sublist name (Error q (unknownParameter name))) \<and>
   (Atoi v = Inl e \<longrightarrow>
      SetParameterByName lib ''max-tokens'' v m = (Some e, m) \<and>
      (e = NumError ''Atoi'' v ErrSyntax \<or> e = NumError ''Atoi'' v ErrRange)) \<and>
   (ParseFloat lib w = Inl e' \<longrightarrow>
      SetParameterByName lib ''temperature'' w m = (Some e', m) \<and>
      SetParameterByName lib ''top-p'' w m = (Some e', m))"
proof -
  have "sublist name ((''unknown parameter '' @ [squote]) @ name @
          ([squote] @ ''. Supported parameters: max-tokens, temperature, top-p''))"
    by (rule sublist_appendI)
  then have "sublist name (Error q (unknownParameter name))"
    by (simp add: unknownParameter_def)
  moreover have "Atoi v = Inl e \<Longrightarrow> e = NumError ''Atoi'' v ErrSyntax \<or> e = NumError ''Atoi'' v ErrRange"
    by (rule Atoi_error)
  ultimately show ?thesis
    by (auto simp: SetParameterByName_def)
qed

theorem C7_SetParameterByName_failure_witness:
  "SetParameterByName decimalLib ''unknown'' ''1'' noParams =
     (Some (unknownParameter ''unknown''), noParams) \<and>
   sublist ''unknown'' (Error (Quote decimalLib) (unknownParameter ''unknown'')) \<and>
   SetParameterByName decimalLib ''max-tokens'' ''abc'' noParams =
     (Some (NumError ''Atoi'' ''abc'' ErrSyntax), noParams) \<and>
   SetParameterByName decimalLib ''temperature'' ''abc'' noParams =
     (Some (NumError ''ParseFloat'' ''abc'' ErrSyntax), noParams) \<and>
   SetParameterByName decimalLib ''top-p'' ''abc'' noParams =
     (Some (NumError ''ParseFloat'' ''abc'' ErrSyntax), noParams)"
proof -
  have a: "Atoi ''abc'' = Inl (NumError ''Atoi'' ''abc'' ErrSyntax)"
    by code_simp
  have f: "ParseFloat decimalLib ''abc'' = Inl (NumError ''ParseFloat'' ''abc'' ErrSyntax)"
    by code_simp
  show ?thesis
    using C7_SetParameterByName_failure
      [where name = "''unknown''" and lib = decimalLib and v = "''1''" and m = noParams
         and q = "Quote decimalLib"]
      C7_SetParameterByName_failure
      [where name = "''unknown''" and lib = decimalLib and v = "''abc''" and m = noParams
         and e = "NumError ''Atoi'' ''abc'' ErrSyntax" and w = "''abc''"
         and e' = "NumError ''ParseFloat'' ''abc'' ErrSyntax"]
      a f
    by simp
qed

text \<open>
  C8. For every name outside \<open>max-tokens\<close>, \<open>temperature\<close>, \<open>top-p\<close> and every parameter
  set, \<open>FormatParameter\<close> returns \<open><not set>\<close>; it has no failing branch.
\<close>

theorem C8_FormatParameter_unknown_name:
  "name \<noteq> ''max-tokens'' \<Longrightarrow> name \<noteq> ''temperature'' \<Longrightarrow> name \<noteq> ''top-p'' \<Longrightarrow>
   FormatParameter lib m name = ''<not set>''"
  by (simp add: FormatParameter_def notSet_def)

theorem C8_FormatParameter_unknown_name_witness:
  "FormatParameter decimalLib \<lparr>maxTokens = Some 5, temperature = Some (7, 1), topP = None\<rparr>
     ''max_tokens'' = ''<not set>''"
  using C8_FormatParameter_unknown_name
    [of "''max_tokens''" decimalLib "\<lparr>maxTokens = Some 5, temperature = Some (7, 1), topP = None\<rparr>"]
  by simp

text \<open>
  C9. \<open>SetParameterByName\<close> checks no range: whenever \<open>Atoi\<close> accepts the text,
  \<open>max-tokens\<close> is set to the integer it gives, and whenever \<open>ParseFloat\<close> accepts the
  text, \<open>temperature\<close> and \<open>top-p\<close> are set to the float it gives; the call succeeds. The
  instance below sets \<open>max-tokens\<close> to \<open>-5\<close> and to \<open>0\<close>, \<open>temperature\<close> to \<open>2.5\<close> and
  \<open>top-p\<close> to \<open>-1\<close>.
\<close>

theorem C9_SetParameterByName_stores_parsed_value:
  "(Atoi v = Inr n \<longrightarrow>
      SetParameterByName lib ''max-tokens'' v m = (None, m\<lparr>maxTokens := Some n\<rparr>)) \<and>
   (ParseFloat lib w = Inr x \<longrightarrow>
      SetParameterByName lib ''temperature'' w m = (None, m\<lparr>temperature := Some x\<rparr>) \<and>
      SetParameterByName lib ''top-p'' w m = (None, m\<lparr>topP := Some x\<rparr>))"
  by (simp add: SetParameterByName_def)

theorem C9_SetParameterByName_stores_parsed_value_witness:
  "SetParameterByName decimalLib ''max-tokens'' ''-5'' noParams =
     (None, noParams\<lparr>maxTokens := Some (- 5)\<rparr>) \<and>
   SetParameterByName decimalLib ''max-tokens'' ''0'' noParams =
     (None, noParams\<lparr>maxTokens := Some 0\<rparr>) \<and>
   SetParameterByName decimalLib ''temperature'' ''2.5'' noParams =
     (None, noParams\<lparr>temperature := Some (25, 1)\<rparr>) \<and>
   SetParameterByName decimalLib ''top-p'' ''-1'' noParams =
     (None, noParams\<lparr>topP := Some (- 1, 0)\<rparr>)"
proof -
  have a: "Atoi ''-5'' = Inr (- 5)" "Atoi ''0'' = Inr 0"
    by code_simp+
  have f: "ParseFloat decimalLib ''2.5'' = Inr (25, 1)" "ParseFloat decimalLib ''-1'' = Inr (- 1, 0)"
    by code_simp+
  show ?thesis
    using C9_SetParameterByName_stores_parsed_value [of "''-5''" "- 5" decimalLib noParams "''2.5''" "(25, 1)"]
      C9_SetParameterByName_stores_parsed_value [of "''0''" 0 decimalLib noParams "''-1''" "(- 1, 0)"]
      a f
    by simp
qed

section \<open>The completion stream client: the stream flag and the failures\<close>

lemma handleHTTPError_body:
  "sublist (RespBody resp) (Error q (handleHTTPError resp))"
proof (cases "RespBody resp = []")
  case True
  then show ?thesis by simp
next
  case False
  have "sublist (RespBody resp) ((pre @ ''\<newline>'') @ RespBody resp @ ''\<newline>'')" for pre
    by (rule sublist_appendI)
  with False show ?thesis
    by (simp add: handleHTTPError_def Let_def)
qed

lemma handleHTTPError_kind:
  "prefix (if StatusCode resp = 401 then ''unauthorized''
           else if StatusCode resp = 400 then ''bad request''
           else ''unexpected response from the server: '' @ Status resp)
          (Error q (handleHTTPError resp))"
  by (simp add: handleHTTPError_def Let_def StatusUnauthorized_def StatusBadRequest_def)

text \<open>
  C4. \<open>GetChatCompletionStream\<close> issues at most one call: a POST to the inference URL
  with the bearer token and the JSON content type, whose body is the encoding of the
  caller's request with the stream flag set (no call when the encoding fails). For every answer whose status is not 200 it
  returns the error of \<open>handleHTTPError\<close> and no reader, and the response body is closed
  on return. The message of that error starts with \<open>unauthorized\<close> for 401, with
  \<open>bad request\<close> for 400 and with \<open>unexpected response from the server: \<close> and the
  status line for every other status, and it holds the response body.
\<close>

theorem C4_GetChatCompletionStream_failure:
  "issued (GetChatCompletionStream marshal c req) =
     (case marshal (req\<lparr>Stream := True\<rparr>) of
        Inl err \<Rightarrow> []
      | Inr b \<Rightarrow>
          [\<lparr>Method = ''POST'',
            URL = ''https://models.inference.ai.azure.com/chat/completions'',
            Header = [(''Authorization'', ''Bearer '' @ token c),
                      (''Content-Type'', ''application/json'')],
            Body = b\<rparr>]) \<and>
   (marshal (req\<lparr>Stream := True\<rparr>) = Inr b \<and>
    Do c \<lparr>Method = ''POST'',
           URL = ''https://models.inference.ai.azure.com/chat/completions'',
           Header = [(''Authorization'', ''Bearer '' @ token c),
                     (''Content-Type'', ''application/json'')],
           Body = b\<rparr> = Inr resp \<and>
    StatusCode resp \<noteq> 200 \<longrightarrow>
      returned (GetChatCompletionStream marshal c req) = Inl (handleHTTPError resp) \<and>
      bodyClosed (GetChatCompletionStream marshal c req) \<and>
      sublist (RespBody resp) (Error q (handleHTTPError resp)) \<and>
      (StatusCode resp = 401 \<longrightarrow> prefix ''unauthorized'' (Error q (handleHTTPError resp))) \<and>
      (StatusCode resp = 400 \<longrightarrow> prefix ''bad request'' (Error q (handleHTTPError resp))) \<and>
      (StatusCode resp \<noteq> 401 \<and> StatusCode resp \<noteq> 400 \<longrightarrow>
         prefix (''unexpected response from the server: '' @ Status resp)
           (Error q (handleHTTPError resp))))"
proof -
  let ?post = "\<lambda>b. \<lparr>Method = ''POST'',
                      URL = ''https://models.inference.ai.azure.com/chat/completions'',
                      Header = [(''Authorization'', ''Bearer '' @ token c),
                                (''Content-Type'', ''application/json'')],
                      Body = b\<rparr>"
  have post: "newPost (token c) b' = ?post b'" for b'
    by (simp add: newPost_def prodInferenceURL_def)
  have sent: "issued (GetChatCompletionStream marshal c req) =
     (case marshal (req\<lparr>Stream := True\<rparr>) of
        Inl err \<Rightarrow> []
      | Inr b \<Rightarrow> [?post b])"
    by (simp add: GetChatCompletionStream_def Let_def post split: sum.split)
  have fail: "returned (GetChatCompletionStream marshal c req) = Inl (handleHTTPError resp) \<and>
      bodyClosed (GetChatCompletionStream marshal c req)"
    if "marshal (req\<lparr>Stream := True\<rparr>) = Inr b" "Do c (?post b) = Inr resp"
       "StatusCode resp \<noteq> 200"
    using that by (simp add: GetChatCompletionStream_def Let_def StatusOK_def post)
  have kind: "(StatusCode resp = 401 \<longrightarrow> prefix ''unauthorized'' (Error q (handleHTTPError resp))) \<and>
      (StatusCode resp = 400 \<longrightarrow> prefix ''bad request'' (Error q (handleHTTPError resp))) \<and>
      (StatusCode resp \<noteq> 401 \<and> StatusCode resp \<noteq> 400 \<longrightarrow>
         prefix (''unexpected response from the server: '' @ Status resp)
           (Error q (handleHTTPError resp)))"
    using handleHTTPError_kind [of resp q] by (simp split: if_splits)
  from sent fail kind handleHTTPError_body [of resp q] show ?thesis
    by blast
qed

text \<open>
  An instance: the encoding shows the stream flag, the token is \<open>t0\<close>, and the server
  answers 401 with the body \<open>bad credentials\<close>.
\<close>

theorem C4_GetChatCompletionStream_failure_witness:
  "issued (GetChatCompletionStream streamOnly refusing (newRequest ''gpt'' [])) =
     [\<lparr>Method = ''POST'',
       URL = ''https://models.inference.ai.azure.com/chat/completions'',
       Header = [(''Authorization'', ''Bearer t0''), (''Content-Type'', ''application/json'')],
       Body = ''stream=true''\<rparr>] \<and>
   returned (GetChatCompletionStream streamOnly refusing (newRequest ''gpt'' [])) =
     Inl (errorString ''unauthorized\<newline>bad credentials\<newline>'') \<and>
   bodyClosed (GetChatCompletionStream streamOnly refusing (newRequest ''gpt'' []))"
proof -
  have m: "streamOnly (newRequest ''gpt'' [] \<lparr>Stream := True\<rparr>) = Inr ''stream=true''"
    by (simp add: streamOnly_def)
  have d: "Do refusing r =
             Inr \<lparr>StatusCode = 401, Status = ''401 Unauthorized'', RespBody = ''bad credentials''\<rparr>"
    for r
    by (simp add: refusing_def)
  have t: "token refusing = ''t0''"
    by (simp add: refusing_def)
  have h: "handleHTTPError \<lparr>StatusCode = 401, Status = ''401 Unauthorized'',
              RespBody = ''bad credentials''\<rparr> =
           errorString ''unauthorized\<newline>bad credentials\<newline>''"
    by (simp add: handleHTTPError_def StatusUnauthorized_def)
  show ?thesis
    using C4_GetChatCompletionStream_failure
      [where marshal = streamOnly and c = refusing and req = "newRequest ''gpt'' []"
         and b = "''stream=true''"
         and resp = "\<lparr>StatusCode = 401, Status = ''401 Unauthorized'',
                       RespBody = ''bad credentials''\<rparr>"]
      m d t h
    by simp
qed

section \<open>The session\<close>

text \<open>
  C10. With a prompt argument and a non-empty pipe, the initial prompt is the words after
  the model name joined by single spaces, a line feed, and the piped text; and the
  one-shot flag is set by a prompt argument and by a non-empty pipe alike.
\<close>

theorem C10_startPrompt_argument_and_pipe:
  "(1 < length args \<and> t \<noteq> [] \<longrightarrow>
      startPrompt args (Some t) = (Join (drop 1 args) '' '' @ ''\<newline>'' @ t, True)) \<and>
   (1 < length args \<longrightarrow> snd (startPrompt args pipe)) \<and>
   (t \<noteq> [] \<longrightarrow> snd (startPrompt args (Some t)))"
  by (auto simp: startPrompt_def split: option.splits)

theorem C10_startPrompt_argument_and_pipe_witness:
  "startPrompt [''gpt-4o'', ''tell'', ''me''] (Some ''a story\<newline>'') =
     (''tell me\<newline>a story\<newline>'', True) \<and>
   snd (startPrompt [''gpt-4o'', ''tell'', ''me''] None) \<and>
   snd (startPrompt [''gpt-4o''] (Some ''a story\<newline>''))"
  using C10_startPrompt_argument_and_pipe [of "[''gpt-4o'', ''tell'', ''me'']" "''a story\<newline>''" None]
    C10_startPrompt_argument_and_pipe [of "[''gpt-4o'']" "''a story\<newline>''" None]
  by simp

subsection \<open>One exchange\<close>

lemma handleCompletionChoice_zero:
  "handleCompletionChoice choice zeroBuilder out =
     (None, out @ (case fragment choice of None \<Rightarrow> [] | Some t \<Rightarrow> [t]))"
  by (simp add: handleCompletionChoice_def fragment_def WriteString_def zeroBuilder_def
        WriteToOut_def split: option.split)

lemma choicesLoop_zero:
  "choicesLoop choices zeroBuilder out = (None, out @ List.map_filter fragment choices)"
proof (induction choices arbitrary: out)
  case Nil
  show ?case by (simp add: List.map_filter_simps)
next
  case (Cons choice rest)
  show ?case
    by (cases "fragment choice")
       (simp_all add: handleCompletionChoice_zero Cons.IH List.map_filter_simps)
qed

lemma readLoop_zero:
  "readLoop cs final zeroBuilder out =
     (if final = EOF then None else Some final, out @ fragments cs)"
proof (induction cs arbitrary: out)
  case Nil
  show ?case by (simp add: fragments_def)
next
  case (Cons c rest)
  have "fragments (c # rest) = List.map_filter fragment (Choices c) @ fragments rest"
    by (simp add: fragments_def)
  then show ?case
    by (simp add: choicesLoop_zero Cons.IH)
qed

lemma exchange_clean_stream:
  assumes "envStream env
             (UpdateRequest (mp s)
                (newRequest (modelName env)
                   (GetMessages (AddMessage (conversation s) ChatMessageRoleUser p)))) =
           Inr (cs, EOF)"
  shows "outW (snd (exchange env p s)) = outW s @ fragments cs @ [''\<newline>''] \<and>
         messages (conversation (snd (exchange env p s))) =
           messages (conversation s) @
           [\<lparr>Content = Some p, Role = ''user''\<rparr>,
            \<lparr>Content = Some ''\<newline>'', Role = ''assistant''\<rparr>] \<and>
         fst (exchange env p s) = (if singleShot env then Break else Continue)"
proof -
  have w: "WriteString loopBuilderAddr zeroBuilder ''\<newline>'' =
             Inr \<lparr>addr = Some loopBuilderAddr, buf = ''\<newline>''\<rparr>"
    by (simp add: WriteString_def zeroBuilder_def)
  have o: "outW (snd (exchange env p s)) = outW s @ fragments cs @ [''\<newline>'']"
    using assms by (simp add: exchange_def Let_def readLoop_zero w WriteToOut_def)
  have m: "messages (conversation (snd (exchange env p s))) =
             messages (conversation s) @
             [\<lparr>Content = Some p, Role = ''user''\<rparr>,
              \<lparr>Content = Some ''\<newline>'', Role = ''assistant''\<rparr>]"
    using assms
    by (simp add: exchange_def Let_def readLoop_zero w AddMessage_def
          ChatMessageRoleUser_def ChatMessageRoleAssistant_def)
  have f: "fst (exchange env p s) = (if singleShot env then Break else Continue)"
    using assms by (simp add: exchange_def Let_def readLoop_zero w)
  from o m f show ?thesis by blast
qed

text \<open>
  C2. The exchange below is on a session that has just started, with the prompt \<open>hi\<close>
  and the stream of the chunks \<open>Hel\<close> and \<open>lo\<close>, which then ends. The fragments of the
  stream are \<open>Hel\<close> and \<open>lo\<close>, and the output sink receives them in that order, and a
  line feed after them. The assistant turn that the session appends is the line feed
  alone, not \<open>Hello\<close>: \<open>handleCompletionChoice\<close> wrote each fragment to its own copy of
  the builder (\<open>exchange_clean_stream\<close> is the general fact, for every stream that ends
  cleanly).
\<close>

theorem C2_assistant_turn_is_not_the_fragments:
  "fragments [\<lparr>Choices = [\<lparr>Delta = Some (Some ''Hel''), Message = None\<rparr>]\<rparr>,
              \<lparr>Choices = [\<lparr>Delta = Some (Some ''lo''), Message = None\<rparr>]\<rparr>] = [''Hel'', ''lo''] \<and>
   outW (snd (exchange scriptedEnv ''hi'' freshSession)) = [''Hel'', ''lo'', ''\<newline>''] \<and>
   messages (conversation (snd (exchange scriptedEnv ''hi'' freshSession))) =
     [\<lparr>Content = Some ''hi'', Role = ''user''\<rparr>,
      \<lparr>Content = Some ''\<newline>'', Role = ''assistant''\<rparr>] \<and>
   Content (last (messages (conversation (snd (exchange scriptedEnv ''hi'' freshSession))))) \<noteq>
     Some ''Hello''"
  by code_simp

subsection \<open>One-shot mode\<close>

lemma exchange_input:
  "stdin (snd (exchange env p s)) = stdin s \<and>
   initialPrompt (snd (exchange env p s)) = initialPrompt s"
  by (simp add: exchange_def Let_def split: sum.split prod.split option.split)

lemma exchange_requests:
  "requests (snd (exchange env p s)) =
     requests s @
     [UpdateRequest (mp s)
        (newRequest (modelName env)
           (GetMessages (AddMessage (conversation s) ChatMessageRoleUser p)))]"
  by (simp add: exchange_def Let_def split: sum.split prod.split option.split)

lemma exchange_singleShot:
  "singleShot env \<Longrightarrow> fst (exchange env p s) \<noteq> Continue"
  by (simp add: exchange_def Let_def split: sum.split prod.split option.split)

lemma exchange_stdout:
  "stdoutW (snd (exchange env p s)) = stdoutW s"
  by (simp add: exchange_def Let_def split: sum.split prod.split option.split)

lemma command_keeps_state:
  "conversation (snd (command env p s)) = conversation s \<and>
   mp (snd (command env p s)) = mp s \<and>
   requests (snd (command env p s)) = requests s"
  by (simp add: command_def)

lemma dispatch_requests_le:
  "length (requests (snd (dispatch env p s))) \<le> length (requests s) + 1"
  by (simp add: dispatch_def exchange_requests command_keeps_state)

lemma dispatch_Continue_requests:
  "singleShot env \<Longrightarrow> fst (dispatch env p s) = Continue \<Longrightarrow>
   requests (snd (dispatch env p s)) = requests s"
  using exchange_singleShot [of env p s]
  by (simp add: dispatch_def command_keeps_state split: if_splits)

lemma body_requests_le:
  "length (requests (snd (body env s))) \<le> length (requests s) + 1"
proof -
  have "length (requests (snd (dispatch env p t))) \<le> length (requests s) + 1"
    if "requests t = requests s" for p t
    using dispatch_requests_le [of env p t] that by simp
  then show ?thesis
    by (simp add: body_def Let_def split: list.split)
qed

lemma body_Continue_requests:
  assumes "singleShot env" and "fst (body env s) = Continue"
  shows "requests (snd (body env s)) = requests s"
proof -
  have d: "requests (snd (dispatch env p t)) = requests s"
    if "requests t = requests s" "fst (dispatch env p t) = Continue" for p t
    using dispatch_Continue_requests [OF assms(1) that(2)] that(1) by simp
  show ?thesis
  proof (cases "initialPrompt s = []")
    case False
    with assms(2) show ?thesis by (simp add: body_def d)
  next
    case True
    show ?thesis
    proof (cases "stdin s")
      case Nil
      with True assms(2) show ?thesis by (simp add: body_def)
    next
      case (Cons line rest)
      with True assms(2) show ?thesis by (simp add: body_def d)
    qed
  qed
qed

lemma loop_requests_le:
  "singleShot env \<Longrightarrow> length (requests (snd (loop env s))) \<le> length (requests s) + 1"
proof (induction env s rule: loop.induct)
  case (1 env s)
  obtain oc s1 where b: "body env s = (oc, s1)"
    by (cases "body env s")
  show ?case
  proof (cases oc)
    case Continue
    with b have eq: "loop env s = loop env s1"
      by (simp add: loop.simps [of env s])
    from b Continue "1.prems" have "requests s1 = requests s"
      using body_Continue_requests [of env s] by simp
    moreover have "length (requests (snd (loop env s1))) \<le> length (requests s1) + 1"
      using "1.IH" b Continue "1.prems" by simp
    ultimately show ?thesis using eq by simp
  next
    case Break
    with b have "snd (loop env s) = s1"
      by (simp add: loop.simps [of env s])
    with b show ?thesis using body_requests_le [of env s] by simp
  next
    case (Return err)
    with b have "snd (loop env s) = s1"
      by (simp add: loop.simps [of env s])
    with b show ?thesis using body_requests_le [of env s] by simp
  qed
qed

lemma TrimSpace_Nil: "TrimSpace [] = []"
  by code_simp

lemma TrimSpace_runes:
  "TrimSpace ([CHR 0xC2, CHR 0xA0] @ '' hi you'' @ [CHR 0xE3, CHR 0x80, CHR 0x80, CHR 0x0A]) =
     ''hi you'' \<and>
   TrimSpace [CHR 0xC2, CHR 0xA0] = [] \<and>
   TrimSpace ([CHR 0xC2] @ ''a'' @ [CHR 0xA0]) = [CHR 0xC2] @ ''a'' @ [CHR 0xA0]"
  by code_simp

lemma blank_initial_prompt_reads_stdin:
  "startPrompt [''gpt'', [CHR 0xC2, CHR 0xA0]] None = ([CHR 0xC2, CHR 0xA0], True) \<and>
   requests (snd (RunE decimalLib scripted ''gpt'' [''gpt'', [CHR 0xC2, CHR 0xA0]] None noFlags
                    [''/bye\<newline>'', ''more\<newline>''])) = [] \<and>
   stdin (snd (RunE decimalLib scripted ''gpt'' [''gpt'', [CHR 0xC2, CHR 0xA0]] None noFlags
                 [''/bye\<newline>'', ''more\<newline>''])) = [''more\<newline>'']"
  by code_simp

lemma loop_initialPrompt:
  assumes "singleShot env"
    and "TrimSpace (initialPrompt s) \<noteq> []"
    and "\<not> HasPrefix (TrimSpace (initialPrompt s)) ''/''"
  shows "snd (loop env s) =
           snd (exchange env (TrimSpace (initialPrompt s)) (s\<lparr>initialPrompt := []\<rparr>))"
proof -
  from assms(2) have ne: "initialPrompt s \<noteq> []"
    using TrimSpace_Nil by auto
  let ?x = "exchange env (TrimSpace (initialPrompt s)) (s\<lparr>initialPrompt := []\<rparr>)"
  from ne assms(2,3) have b: "body env s = ?x"
    by (simp add: body_def dispatch_def)
  obtain oc s1 where x: "?x = (oc, s1)"
    by (cases ?x)
  with exchange_singleShot [OF assms(1), of "TrimSpace (initialPrompt s)" "s\<lparr>initialPrompt := []\<rparr>"]
  have "oc \<noteq> Continue" by simp
  with b x show ?thesis
    by (cases oc) (simp_all add: loop.simps [of env s])
qed

lemma startPrompt_singleShot:
  "fst (startPrompt args pipe) \<noteq> [] \<Longrightarrow> snd (startPrompt args pipe)"
  by (auto simp: startPrompt_def split: option.splits if_splits)

text \<open>
  C3, as the claim states it, fails: started with the prompt argument \<open>/bye\<close>, the
  session ends without an exchange.
\<close>

theorem C3_initial_command_makes_no_exchange:
  "startPrompt [''gpt'', ''/bye''] None = (''/bye'', True) \<and>
   fst (RunE decimalLib scripted ''gpt'' [''gpt'', ''/bye''] None noFlags [''hello\<newline>'']) = None \<and>
   requests (snd (RunE decimalLib scripted ''gpt'' [''gpt'', ''/bye''] None noFlags [''hello\<newline>''])) = []"
  by code_simp

text \<open>
  C3, amended. For every session started with a non-empty initial prompt, at most one
  exchange is started, whatever standard input holds. When the flags parse and the
  initial prompt, white space trimmed, is not empty and does not start with a slash,
  exactly one exchange is started, its request holds the system message (if any) and
  the trimmed initial prompt as the only turn, and the session ends without a read from
  standard input. White space is Unicode's: started with a no-break space as the prompt
  argument, the session reads standard input (\<open>blank_initial_prompt_reads_stdin\<close>).
\<close>

theorem C3_one_shot_exchanges:
  "fst (startPrompt args pipe) \<noteq> [] \<longrightarrow>
     length (requests (snd (RunE lib strm name args pipe flags lines))) \<le> 1 \<and>
     (fst (PopulateFromFlags lib \<lparr>maxTokens = None, temperature = None, topP = None\<rparr> flags) = None \<and>
      TrimSpace (fst (startPrompt args pipe)) \<noteq> [] \<and>
      \<not> HasPrefix (TrimSpace (fst (startPrompt args pipe))) ''/'' \<longrightarrow>
        map Messages (requests (snd (RunE lib strm name args pipe flags lines))) =
          [(if flagSystemPrompt flags = [] then []
            else [\<lparr>Content = Some (flagSystemPrompt flags), Role = ''system''\<rparr>]) @
           [\<lparr>Content = Some (TrimSpace (fst (startPrompt args pipe))), Role = ''user''\<rparr>]] \<and>
        stdin (snd (RunE lib strm name args pipe flags lines)) =
          (case pipe of None \<Rightarrow> lines | Some t \<Rightarrow> []) \<and>
        stdoutW (snd (RunE lib strm name args pipe flags lines)) = [])"
proof (intro impI conjI)
  assume ne: "fst (startPrompt args pipe) \<noteq> []"
  obtain ip ss where sp: "startPrompt args pipe = (ip, ss)"
    by (cases "startPrompt args pipe")
  with ne startPrompt_singleShot [of args pipe] have ss: "ss = True" and ip: "ip \<noteq> []"
    by simp_all
  obtain fe m1 where pf:
    "PopulateFromFlags lib \<lparr>maxTokens = None, temperature = None, topP = None\<rparr> flags = (fe, m1)"
    by (cases "PopulateFromFlags lib \<lparr>maxTokens = None, temperature = None, topP = None\<rparr> flags")
  let ?env = "\<lparr>envLib = lib, envStream = strm, modelName = name, singleShot = True\<rparr>"
  let ?s0 = "\<lparr>conversation = \<lparr>messages = [], systemPrompt = flagSystemPrompt flags\<rparr>,
              mp = m1, initialPrompt = ip,
              stdin = (case pipe of None \<Rightarrow> lines | Some t \<Rightarrow> []),
              outW = [], stdoutW = [], requests = []\<rparr>"
  show "length (requests (snd (RunE lib strm name args pipe flags lines))) \<le> 1"
  proof (cases fe)
    case None
    with sp ss pf have "RunE lib strm name args pipe flags lines = loop ?env ?s0"
      by (simp add: RunE_def)
    with loop_requests_le [of ?env ?s0] show ?thesis by simp
  next
    case (Some err)
    with sp ss pf show ?thesis by (simp add: RunE_def)
  qed
  assume good:
    "fst (PopulateFromFlags lib \<lparr>maxTokens = None, temperature = None, topP = None\<rparr> flags) = None \<and>
     TrimSpace (fst (startPrompt args pipe)) \<noteq> [] \<and>
     \<not> HasPrefix (TrimSpace (fst (startPrompt args pipe))) ''/''"
  with pf sp ss have run: "RunE lib strm name args pipe flags lines = loop ?env ?s0"
    by (simp add: RunE_def)
  from good sp have "snd (loop ?env ?s0) =
      snd (exchange ?env (TrimSpace (initialPrompt ?s0)) (?s0\<lparr>initialPrompt := []\<rparr>))"
    by (intro loop_initialPrompt) simp_all
  with run have r: "snd (RunE lib strm name args pipe flags lines) =
      snd (exchange ?env (TrimSpace ip) (?s0\<lparr>initialPrompt := []\<rparr>))"
    by simp
  show "map Messages (requests (snd (RunE lib strm name args pipe flags lines))) =
          [(if flagSystemPrompt flags = [] then []
            else [\<lparr>Content = Some (flagSystemPrompt flags), Role = ''system''\<rparr>]) @
           [\<lparr>Content = Some (TrimSpace (fst (startPrompt args pipe))), Role = ''user''\<rparr>]]"
    using sp
    by (simp add: r exchange_requests UpdateRequest_def newRequest_def AddMessage_def
          GetMessages_eq systemMessage_def ChatMessageRoleSystem_def ChatMessageRoleUser_def)
  show "stdin (snd (RunE lib strm name args pipe flags lines)) =
          (case pipe of None \<Rightarrow> lines | Some t \<Rightarrow> [])"
    by (simp add: r exchange_input)
  show "stdoutW (snd (RunE lib strm name args pipe flags lines)) = []"
    by (simp add: r exchange_stdout)
qed

theorem C3_one_shot_exchanges_witness:
  "length (requests (snd (RunE decimalLib scripted ''gpt''
       [''gpt'', [CHR 0xC2, CHR 0xA0] @ '' hi'', ''you '' @ [CHR 0xE3, CHR 0x80, CHR 0x80]]
       None noFlags [''more\<newline>'', ''and more\<newline>'']))) \<le> 1 \<and>
   map Messages (requests (snd (RunE decimalLib scripted ''gpt''
       [''gpt'', [CHR 0xC2, CHR 0xA0] @ '' hi'', ''you '' @ [CHR 0xE3, CHR 0x80, CHR 0x80]]
       None noFlags [''more\<newline>'', ''and more\<newline>'']))) =
     [[\<lparr>Content = Some ''hi you'', Role = ''user''\<rparr>]] \<and>
   stdin (snd (RunE decimalLib scripted ''gpt''
       [''gpt'', [CHR 0xC2, CHR 0xA0] @ '' hi'', ''you '' @ [CHR 0xE3, CHR 0x80, CHR 0x80]]
       None noFlags [''more\<newline>'', ''and more\<newline>''])) =
     [''more\<newline>'', ''and more\<newline>'']"
proof -
  let ?args = "[''gpt'', [CHR 0xC2, CHR 0xA0] @ '' hi'', ''you '' @ [CHR 0xE3, CHR 0x80, CHR 0x80]]"
  let ?p = "[CHR 0xC2, CHR 0xA0] @ '' hi you '' @ [CHR 0xE3, CHR 0x80, CHR 0x80]"
  have sp: "startPrompt ?args None = (?p, True)"
    by code_simp
  have ts: "TrimSpace ?p = ''hi you''"
    by code_simp
  have hp: "\<not> HasPrefix ''hi you'' ''/''"
    by code_simp
  have pf: "fst (PopulateFromFlags decimalLib \<lparr>maxTokens = None, temperature = None, topP = None\<rparr>
               noFlags) = None"
    by code_simp
  have gm: "flagSystemPrompt noFlags = []"
    by (simp add: noFlags_def)
  show ?thesis
    using C3_one_shot_exchanges
      [where args = ?args and pipe = None and lib = decimalLib and strm = scripted
         and name = "''gpt''" and flags = noFlags and lines = "[''more\<newline>'', ''and more\<newline>'']"]
      sp ts hp pf gm
    by simp
qed

subsection \<open>In-band commands\<close>

text \<open>
  C1. The run below reads \<open>hello\<close>, \<open>/reset\<close>, \<open>/system-prompt be brief\<close>,
  \<open>/set max-tokens 5\<close>, \<open>again\<close> and \<open>/bye\<close>. The three commands are answered on the
  output sink, and the request for \<open>again\<close> still holds the turns before \<open>/reset\<close>, no
  system message and no \<open>max_tokens\<close>: each handler worked on its own copy of the
  conversation or of the parameters (\<open>command_keeps_state\<close> is the general fact).
\<close>

theorem C1_commands_leave_session_state:
  "map Messages (requests (snd (RunE decimalLib scripted ''gpt'' [''gpt''] None noFlags
       [''hello\<newline>'', ''/reset\<newline>'', ''/system-prompt be brief\<newline>'',
        ''/set max-tokens 5\<newline>'', ''again\<newline>'', ''/bye\<newline>'']))) =
     [[\<lparr>Content = Some ''hello'', Role = ''user''\<rparr>],
      [\<lparr>Content = Some ''hello'', Role = ''user''\<rparr>,
       \<lparr>Content = Some ''\<newline>'', Role = ''assistant''\<rparr>,
       \<lparr>Content = Some ''again'', Role = ''user''\<rparr>]] \<and>
   map MaxTokens (requests (snd (RunE decimalLib scripted ''gpt'' [''gpt''] None noFlags
       [''hello\<newline>'', ''/reset\<newline>'', ''/system-prompt be brief\<newline>'',
        ''/set max-tokens 5\<newline>'', ''again\<newline>'', ''/bye\<newline>'']))) = [None, None] \<and>
   outW (snd (RunE decimalLib scripted ''gpt'' [''gpt''] None noFlags
       [''hello\<newline>'', ''/reset\<newline>'', ''/system-prompt be brief\<newline>'',
        ''/set max-tokens 5\<newline>'', ''again\<newline>'', ''/bye\<newline>''])) =
     [''Hel'', ''lo'', ''\<newline>'', ''Reset chat history\<newline>'', ''Updated system prompt\<newline>'',
      ''Set max-tokens to 5\<newline>'', ''Hel'', ''lo'', ''\<newline>''] \<and>
   systemPrompt (conversation (snd (RunE decimalLib scripted ''gpt'' [''gpt''] None noFlags
       [''hello\<newline>'', ''/reset\<newline>'', ''/system-prompt be brief\<newline>'',
        ''/set max-tokens 5\<newline>'', ''again\<newline>'', ''/bye\<newline>'']))) = [] \<and>
   mp (snd (RunE decimalLib scripted ''gpt'' [''gpt''] None noFlags
       [''hello\<newline>'', ''/reset\<newline>'', ''/system-prompt be brief\<newline>'',
        ''/set max-tokens 5\<newline>'', ''again\<newline>'', ''/bye\<newline>''])) = noParams"
  by code_simp

end
